theory Spec2Isabelle
  imports Complex_Main
begin

section \<open>Python values\<close>

text \<open>
  A Python float is a finite number, an infinity or NaN. The finite floats are a subset of
  the reals; the model admits every real, so a statement about all finite values covers all
  finite floats. Comparisons follow IEEE 754 as Python implements them: every comparison
  with NaN is false.
\<close>

datatype pyfloat = Finite real | PosInf | NegInf | NaN

text \<open>
  The plain data that crosses the boundaries of the service: what the controller returns,
  what a schema class is constructed from, and what a JSON body holds. A dict is an
  association list in insertion order; a key is looked up with \<open>map_of\<close>.
\<close>

datatype pyval =
    VNone
  | VBool bool
  | VInt int
  | VFloat pyfloat
  | VStr string
  | VList "pyval list"
  | VDict "(string \<times> pyval) list"

text \<open>The bounds of the schema are Python int literals; Python compares a float with an
  int by value.\<close>

fun float_gt :: "pyfloat \<Rightarrow> int \<Rightarrow> bool" where
  "float_gt (Finite x) b = (x > of_int b)"
| "float_gt PosInf b = True"
| "float_gt NegInf b = False"
| "float_gt NaN b = False"

fun float_ge :: "pyfloat \<Rightarrow> int \<Rightarrow> bool" where
  "float_ge (Finite x) b = (x \<ge> of_int b)"
| "float_ge PosInf b = True"
| "float_ge NegInf b = False"
| "float_ge NaN b = False"

fun float_lt :: "pyfloat \<Rightarrow> int \<Rightarrow> bool" where
  "float_lt (Finite x) b = (x < of_int b)"
| "float_lt PosInf b = False"
| "float_lt NegInf b = True"
| "float_lt NaN b = False"

fun float_le :: "pyfloat \<Rightarrow> int \<Rightarrow> bool" where
  "float_le (Finite x) b = (x \<le> of_int b)"
| "float_le PosInf b = False"
| "float_le NegInf b = True"
| "float_le NaN b = False"

datatype number = NInt int | NFloat pyfloat

fun num_gt :: "number \<Rightarrow> int \<Rightarrow> bool" where
  "num_gt (NInt i) b = (i > b)"
| "num_gt (NFloat f) b = float_gt f b"

fun num_ge :: "number \<Rightarrow> int \<Rightarrow> bool" where
  "num_ge (NInt i) b = (i \<ge> b)"
| "num_ge (NFloat f) b = float_ge f b"

fun num_lt :: "number \<Rightarrow> int \<Rightarrow> bool" where
  "num_lt (NInt i) b = (i < b)"
| "num_lt (NFloat f) b = float_lt f b"

fun num_le :: "number \<Rightarrow> int \<Rightarrow> bool" where
  "num_le (NInt i) b = (i \<le> b)"
| "num_le (NFloat f) b = float_le f b"

section \<open>Schema declarations (models.py)\<close>

text \<open>
  Every field of models.py is declared as \<open>name: type = Field(..., gt=, ge=, lt=, le=)\<close>.
  The first argument \<open>...\<close> makes the field required; \<open>description\<close> and \<open>example\<close> are
  documentation and play no part in validation. A \<open>Field\<close> record keeps the four bounds.
\<close>

record Field =
  gt :: "int option"
  ge :: "int option"
  lt :: "int option"
  le :: "int option"

definition Field_required :: Field where
  "Field_required = \<lparr>gt = None, ge = None, lt = None, le = None\<rparr>"

text \<open>The annotation of a field: \<open>float\<close>, \<open>int\<close>, \<open>str\<close>, \<open>dict\<close>, \<open>List[t]\<close>, or a model
  class, given by its fields in declaration order (inherited fields first).\<close>

datatype ftype =
    float_t Field
  | int_t Field
  | str_t
  | dict_t
  | list_t ftype
  | model_t "(string \<times> ftype) list"

datatype pytype = py_float | py_int | py_str | py_dict | py_list

datatype error_type =
    missing
  | none_not_allowed
  | type_error pytype
  | not_gt int
  | not_ge int
  | not_lt int
  | not_le int

datatype loc_item = Key string | Idx nat

type_synonym verror = "loc_item list \<times> error_type"

text \<open>
  The size constraints of a numeric field, checked in the order gt, ge, lt, le; the first
  violated bound is the error of the field. A bound is violated when the comparison is not
  true, so NaN violates every bound.
\<close>

definition number_size_validator :: "Field \<Rightarrow> number \<Rightarrow> error_type option" where
  "number_size_validator f v =
     (if gt f \<noteq> None \<and> \<not> num_gt v (the (gt f)) then Some (not_gt (the (gt f)))
      else if ge f \<noteq> None \<and> \<not> num_ge v (the (ge f)) then Some (not_ge (the (ge f)))
      else if lt f \<noteq> None \<and> \<not> num_lt v (the (lt f)) then Some (not_lt (the (lt f)))
      else if le f \<noteq> None \<and> \<not> num_le v (the (le f)) then Some (not_le (the (le f)))
      else None)"

text \<open>
  A value whose Python type is the declared one is taken as it is. What the validation
  library does with a value of another type (an int or a numeric string for a float field,
  a bool for an int field) is its own conversion and differs between its versions: it is
  the parameter \<open>conv\<close>, which returns the converted value or fails. \<open>None\<close> is never
  converted: a required field rejects it.
\<close>

type_synonym conversion = "pytype \<Rightarrow> pyval \<Rightarrow> pyval option"

definition has_type :: "pytype \<Rightarrow> pyval \<Rightarrow> bool" where
  "has_type t v =
     (case t of
        py_float \<Rightarrow> (case v of VFloat f \<Rightarrow> True | _ \<Rightarrow> False)
      | py_int \<Rightarrow> (case v of VInt i \<Rightarrow> True | _ \<Rightarrow> False)
      | py_str \<Rightarrow> (case v of VStr s \<Rightarrow> True | _ \<Rightarrow> False)
      | py_dict \<Rightarrow> (case v of VDict d \<Rightarrow> True | _ \<Rightarrow> False)
      | py_list \<Rightarrow> (case v of VList xs \<Rightarrow> True | _ \<Rightarrow> False))"

definition coerce :: "conversion \<Rightarrow> pytype \<Rightarrow> pyval \<Rightarrow> error_type + pyval" where
  "coerce conv t v =
     (if v = VNone then Inl none_not_allowed
      else if has_type t v then Inr v
      else (case conv t v of
              None \<Rightarrow> Inl (type_error t)
            | Some v' \<Rightarrow> if has_type t v' then Inr v' else Inl (type_error t)))"

text \<open>
  Validation of a value against an annotation. The errors of all fields of a model and of
  all items of a list are collected, each under its location (field names and list
  indices from the outermost model inwards). A model is built from a dict: every declared
  field is looked up by name, a key that is not a declared field is ignored, and the
  validated model is the dict of its declared fields in declaration order.
\<close>

definition check_number :: "loc_item list \<Rightarrow> Field \<Rightarrow> number \<Rightarrow> pyval \<Rightarrow> verror list + pyval" where
  "check_number loc f n v =
     (case number_size_validator f n of None \<Rightarrow> Inr v | Some e \<Rightarrow> Inl [(loc, e)])"

definition errors_of :: "verror list + 'a \<Rightarrow> verror list" where
  "errors_of r = (case r of Inl es \<Rightarrow> es | Inr v \<Rightarrow> [])"

definition is_valid :: "verror list + 'a \<Rightarrow> bool" where
  "is_valid r = (case r of Inl es \<Rightarrow> False | Inr v \<Rightarrow> True)"

definition join :: "verror list + 'a \<Rightarrow> verror list + 'a list \<Rightarrow> verror list + 'a list" where
  "join r rs =
     (case r of
        Inl es \<Rightarrow> Inl (es @ errors_of rs)
      | Inr v \<Rightarrow> (case rs of Inl es \<Rightarrow> Inl es | Inr vs \<Rightarrow> Inr (v # vs)))"

function validate :: "conversion \<Rightarrow> loc_item list \<Rightarrow> ftype \<Rightarrow> pyval \<Rightarrow> verror list + pyval"
  and validate_fields :: "conversion \<Rightarrow> loc_item list \<Rightarrow> (string \<times> ftype) list \<Rightarrow>
        (string \<times> pyval) list \<Rightarrow> verror list + (string \<times> pyval) list"
  and validate_items :: "conversion \<Rightarrow> loc_item list \<Rightarrow> ftype \<Rightarrow> nat \<Rightarrow> pyval list \<Rightarrow>
        verror list + pyval list"
where
  "validate conv loc (float_t f) v =
     (case coerce conv py_float v of
        Inl e \<Rightarrow> Inl [(loc, e)]
      | Inr v' \<Rightarrow> (case v' of VFloat x \<Rightarrow> check_number loc f (NFloat x) v'
                            | _ \<Rightarrow> Inl [(loc, type_error py_float)]))"
| "validate conv loc (int_t f) v =
     (case coerce conv py_int v of
        Inl e \<Rightarrow> Inl [(loc, e)]
      | Inr v' \<Rightarrow> (case v' of VInt i \<Rightarrow> check_number loc f (NInt i) v'
                            | _ \<Rightarrow> Inl [(loc, type_error py_int)]))"
| "validate conv loc str_t v =
     (case coerce conv py_str v of Inl e \<Rightarrow> Inl [(loc, e)] | Inr v' \<Rightarrow> Inr v')"
| "validate conv loc dict_t v =
     (case coerce conv py_dict v of Inl e \<Rightarrow> Inl [(loc, e)] | Inr v' \<Rightarrow> Inr v')"
| "validate conv loc (list_t t) v =
     (case coerce conv py_list v of
        Inl e \<Rightarrow> Inl [(loc, e)]
      | Inr v' \<Rightarrow> (case v' of
                    VList xs \<Rightarrow> (case validate_items conv loc t 0 xs of
                                   Inl es \<Rightarrow> Inl es | Inr ys \<Rightarrow> Inr (VList ys))
                  | _ \<Rightarrow> Inl [(loc, type_error py_list)]))"
| "validate conv loc (model_t fs) v =
     (case coerce conv py_dict v of
        Inl e \<Rightarrow> Inl [(loc, e)]
      | Inr v' \<Rightarrow> (case v' of
                    VDict kvs \<Rightarrow> (case validate_fields conv loc fs kvs of
                                    Inl es \<Rightarrow> Inl es | Inr d \<Rightarrow> Inr (VDict d))
                  | _ \<Rightarrow> Inl [(loc, type_error py_dict)]))"
| "validate_fields conv loc [] kvs = Inr []"
| "validate_fields conv loc ((name, t) # fs) kvs =
     join (case map_of kvs name of
             None \<Rightarrow> Inl [(loc @ [Key name], missing)]
           | Some v \<Rightarrow> (case validate conv (loc @ [Key name]) t v of
                         Inl es \<Rightarrow> Inl es | Inr v' \<Rightarrow> Inr (name, v')))
          (validate_fields conv loc fs kvs)"
| "validate_items conv loc t i [] = Inr []"
| "validate_items conv loc t i (x # xs) =
     join (validate conv (loc @ [Idx i]) t x) (validate_items conv loc t (Suc i) xs)"
  by pat_completeness auto

termination
  by (relation "measures [
        (\<lambda>a. case a of
          Inl (conv, loc, t, v) \<Rightarrow> 2 * size t
        | Inr (Inl (conv, loc, fs, kvs)) \<Rightarrow> 2 * size_list (size_prod (\<lambda>_. 0) size) fs + 1
        | Inr (Inr (conv, loc, t, i, xs)) \<Rightarrow> 2 * size t + 1),
        (\<lambda>a. case a of
          Inl (conv, loc, t, v) \<Rightarrow> 0
        | Inr (Inl (conv, loc, fs, kvs)) \<Rightarrow> 0
        | Inr (Inr (conv, loc, t, i, xs)) \<Rightarrow> Suc (length xs))]") auto

text \<open>The classes of models.py, each as its list of fields in declaration order. A subclass
  has the fields of its base class first.\<close>

definition ExceptionHandler :: "(string \<times> ftype) list" where
  "ExceptionHandler =
     [(''title'', str_t),
      (''message'', str_t),
      (''exception'', str_t),
      (''traceback'', list_t str_t)]"

definition LatLonDict :: "(string \<times> ftype) list" where
  "LatLonDict =
     [(''latitude'', float_t (Field_required\<lparr>gt := Some (- 180), le := Some 180\<rparr>)),
      (''longitude'', float_t (Field_required\<lparr>gt := Some (- 180), le := Some 180\<rparr>))]"

definition LatLonAltDict :: "(string \<times> ftype) list" where
  "LatLonAltDict = LatLonDict @ [(''altitude'', int_t Field_required)]"

definition TelemetryDict :: "(string \<times> ftype) list" where
  "TelemetryDict =
     LatLonAltDict @ [(''heading'', int_t (Field_required\<lparr>ge := Some 0, lt := Some 360\<rparr>))]"

definition ObstacleDict :: "(string \<times> ftype) list" where
  "ObstacleDict =
     LatLonDict @
     [(''radius'', int_t (Field_required\<lparr>ge := Some 0\<rparr>)),
      (''height'', int_t (Field_required\<lparr>ge := Some 0\<rparr>))]"

definition FlyZoneDict :: "(string \<times> ftype) list" where
  "FlyZoneDict =
     [(''altitudeMin'', int_t (Field_required\<lparr>ge := Some 0\<rparr>)),
      (''altitudeMax'', int_t (Field_required\<lparr>ge := Some 0\<rparr>)),
      (''boundaryPoints'', list_t (model_t LatLonDict))]"

definition OrientationDict :: "(string \<times> ftype) list" where
  "OrientationDict =
     [(''yaw'', int_t (Field_required\<lparr>ge := Some 0, lt := Some 360\<rparr>)),
      (''roll'', int_t (Field_required\<lparr>gt := Some (- 180), le := Some 180\<rparr>)),
      (''pitch'', int_t (Field_required\<lparr>gt := Some (- 180), le := Some 180\<rparr>))]"

definition MissionDict :: "(string \<times> ftype) list" where
  "MissionDict =
     [(''id'', int_t Field_required),
      (''lostCommsPos'', model_t LatLonDict),
      (''flyZones'', list_t (model_t FlyZoneDict)),
      (''waypoints'', list_t (model_t LatLonAltDict)),
      (''searchGridPoints'', list_t (model_t LatLonDict)),
      (''offAxisOdlcPos'', model_t LatLonDict),
      (''emergentLastKnownPos'', model_t LatLonDict),
      (''airDropBoundaryPoints'', list_t (model_t LatLonDict)),
      (''airDropPos'', model_t LatLonDict),
      (''ugvDrivePos'', model_t LatLonDict),
      (''stationaryObstacles'', list_t (model_t ObstacleDict)),
      (''mapCenterPos'', model_t LatLonDict),
      (''mapHeight'', int_t (Field_required\<lparr>ge := Some 0\<rparr>))]"

definition QuickDict :: "(string \<times> ftype) list" where
  "QuickDict =
     [(''altitude'', float_t (Field_required\<lparr>ge := Some 0\<rparr>)),
      (''orientation'', model_t OrientationDict),
      (''ground_speed'', float_t (Field_required\<lparr>ge := Some 0\<rparr>)),
      (''air_speed'', float_t (Field_required\<lparr>ge := Some 0\<rparr>)),
      (''dist_to_wp'', float_t (Field_required\<lparr>ge := Some 0\<rparr>)),
      (''voltage'', float_t (Field_required\<lparr>ge := Some 0, lt := Some 20\<rparr>)),
      (''throttle'', int_t (Field_required\<lparr>ge := Some 0, le := Some 100\<rparr>)),
      (''lat'', float_t (Field_required\<lparr>gt := Some (- 180), le := Some 180\<rparr>)),
      (''lon'', float_t (Field_required\<lparr>gt := Some (- 180), le := Some 180\<rparr>))]"

datatype MissionIn =
  mission | waypoints | obstacles | teams | search | ugv | odlc | lost_comms

definition GeneralOut :: "(string \<times> ftype) list" where
  "GeneralOut = [(''result'', dict_t)]"

definition MissionOut :: "(string \<times> ftype) list" where
  "MissionOut = [(''result'', model_t MissionDict)]"

definition TelemetryOut :: "(string \<times> ftype) list" where
  "TelemetryOut = [(''result'', model_t TelemetryDict)]"

definition QuickOut :: "(string \<times> ftype) list" where
  "QuickOut = [(''result'', model_t QuickDict)]"

text \<open>\<open>Model(**kwargs)\<close>: construction of a schema value from keyword arguments.\<close>

definition construct :: "conversion \<Rightarrow> (string \<times> ftype) list \<Rightarrow> (string \<times> pyval) list \<Rightarrow>
    verror list + pyval" where
  "construct conv model kwargs = validate conv [] (model_t model) (VDict kwargs)"

text \<open>The errors reported for one field of a model: those whose location starts with the
  name of the field.\<close>

definition field_errors :: "string \<Rightarrow> verror list \<Rightarrow> verror list" where
  "field_errors name es = filter (\<lambda>e. take 1 (fst e) = [Key name]) es"

section \<open>Failures\<close>

text \<open>
  The classes the service registers an exception handler for: the four classes of the
  errors module, the framework's \<open>RequestValidationError\<close>, and \<open>Exception\<close>. The handler
  of an exception is the one registered for the nearest class among its bases, so
  \<open>Other name\<close> stands for an exception of class \<open>name\<close> that derives from \<open>Exception\<close> and
  from no class with a handler of its own. An exception carries what the handlers read:
  \<open>str(e)\<close> and the lines of \<open>traceback.format_tb(e.__traceback__)\<close>.
\<close>

datatype exc_class =
    InvalidRequestError
  | InvalidStateError
  | RequestValidationError
  | ServiceUnavailableError
  | GeneralError
  | Other string

record pyexc =
  exc_type :: exc_class
  exc_str :: string
  exc_tb :: "string list"

text \<open>\<open>type(e).__name__\<close>\<close>

fun type_name :: "exc_class \<Rightarrow> string" where
  "type_name InvalidRequestError = ''InvalidRequestError''"
| "type_name InvalidStateError = ''InvalidStateError''"
| "type_name RequestValidationError = ''RequestValidationError''"
| "type_name ServiceUnavailableError = ''ServiceUnavailableError''"
| "type_name GeneralError = ''GeneralError''"
| "type_name (Other name) = name"

section \<open>Logging (app.py, lines 40 to 61)\<close>

definition NOTSET :: nat where "NOTSET = 0"
definition DEBUG :: nat where "DEBUG = 10"
definition INFO :: nat where "INFO = 20"
definition WARNING :: nat where "WARNING = 30"
definition ERROR :: nat where "ERROR = 40"

text \<open>A \<open>StreamHandler()\<close> without a stream writes to the standard error stream of the
  process, the console; a \<open>FileHandler\<close> writes to the file it opened.\<close>

datatype handler_kind = StreamHandler | FileHandler string string

record Handler =
  kind :: handler_kind
  level :: nat
  formatter :: string

text \<open>A log record keeps the message and its arguments apart, as \<open>logging.LogRecord\<close>
  does; the formatter, which adds the time of the call, is applied on output and is not
  modelled: a sink holds the records written to it.\<close>

record LogRecord =
  levelno :: nat
  msg :: string
  args :: "string list"
  exc_info :: "pyexc option"

text \<open>The state of the process that logging touches: the level and the handlers of the
  logger named main, the two console streams, and the files of the working directory.\<close>

record process =
  logger_level :: nat
  handlers :: "Handler list"
  stdout :: "string list"
  stderr :: "LogRecord list"
  files :: "string \<Rightarrow> LogRecord list option"

definition setLevel :: "nat \<Rightarrow> process \<Rightarrow> process" where
  "setLevel l p = p\<lparr>logger_level := l\<rparr>"

text \<open>Opening a file: mode w creates the file or truncates it, any other mode (a, the
  default of \<open>FileHandler\<close>) keeps what the file holds and creates it when absent.\<close>

definition open_file :: "string \<Rightarrow> string \<Rightarrow> process \<Rightarrow> process" where
  "open_file name mode p =
     (if mode = ''w'' then p\<lparr>files := (files p)(name \<mapsto> [])\<rparr>
      else (case files p name of
              None \<Rightarrow> p\<lparr>files := (files p)(name \<mapsto> [])\<rparr>
            | Some old \<Rightarrow> p))"

definition addHandler :: "Handler \<Rightarrow> process \<Rightarrow> process" where
  "addHandler h p = (if h \<in> set (handlers p) then p else p\<lparr>handlers := handlers p @ [h]\<rparr>)"

definition emit :: "Handler \<Rightarrow> LogRecord \<Rightarrow> process \<Rightarrow> process" where
  "emit h r p =
     (case kind h of
        StreamHandler \<Rightarrow> p\<lparr>stderr := stderr p @ [r]\<rparr>
      | FileHandler name mode \<Rightarrow>
          p\<lparr>files := (files p)(name \<mapsto> (case files p name of None \<Rightarrow> [] | Some old \<Rightarrow> old) @ [r])\<rparr>)"

text \<open>\<open>Logger.callHandlers\<close>: every handler whose level the record reaches emits it.\<close>

definition callHandlers :: "LogRecord \<Rightarrow> process \<Rightarrow> process" where
  "callHandlers r p = fold (\<lambda>h q. if level h \<le> levelno r then emit h r q else q) (handlers p) p"

definition logger_log :: "nat \<Rightarrow> string \<Rightarrow> string list \<Rightarrow> pyexc option \<Rightarrow> process \<Rightarrow> process" where
  "logger_log l m as exc p =
     (if logger_level p \<le> l
      then callHandlers \<lparr>levelno = l, msg = m, args = as, exc_info = exc\<rparr> p
      else p)"

definition logger_info :: "string \<Rightarrow> string list \<Rightarrow> pyexc option \<Rightarrow> process \<Rightarrow> process" where
  "logger_info = logger_log INFO"

definition logger_error :: "string \<Rightarrow> string list \<Rightarrow> pyexc option \<Rightarrow> process \<Rightarrow> process" where
  "logger_error = logger_log ERROR"

definition print :: "string \<Rightarrow> process \<Rightarrow> process" where
  "print line p = p\<lparr>stdout := stdout p @ [line]\<rparr>"

definition formatter_main :: string where
  "formatter_main = ''%(asctime)s [%(levelname)-8s]  %(message)s''"

definition console_handler :: Handler where
  "console_handler = \<lparr>kind = StreamHandler, level = WARNING, formatter = formatter_main\<rparr>"

definition file_handler :: Handler where
  "file_handler = \<lparr>kind = FileHandler ''log.txt'' ''w'', level = INFO, formatter = formatter_main\<rparr>"

definition debug_file_handler :: Handler where
  "debug_file_handler =
     \<lparr>kind = FileHandler ''debug_log.txt'' ''w'', level = DEBUG, formatter = formatter_main\<rparr>"

text \<open>The process as the module finds it: a logger without level and handlers, nothing
  written to the console yet, and the working directory as it was left.\<close>

definition fresh_process :: "(string \<Rightarrow> LogRecord list option) \<Rightarrow> process" where
  "fresh_process fs = \<lparr>logger_level = NOTSET, handlers = [], stdout = [], stderr = [], files = fs\<rparr>"

text \<open>Lines 40 to 61 of app.py, statement by statement. A \<open>FileHandler\<close> opens its file
  when it is constructed.\<close>

definition configure_logging :: "process \<Rightarrow> process" where
  "configure_logging p0 =
     (let p1 = setLevel DEBUG p0;
          p2 = open_file ''log.txt'' ''w'' p1;
          p3 = open_file ''debug_log.txt'' ''w'' p2;
          p4 = addHandler console_handler p3;
          p5 = addHandler file_handler p4;
          p6 = addHandler debug_file_handler p5;
          p7 = print ''LOGGING STARTED'' p6
      in logger_info ''LOGGING STARTED'' [] None p7)"

text \<open>The module reads config.json before anything else; \<open>config\<close> is the parsed file, or
  \<open>None\<close> when it cannot be opened or parsed, and then the import of the module fails
  before the logger is touched.\<close>

definition startup :: "pyval option \<Rightarrow> (string \<Rightarrow> LogRecord list option) \<Rightarrow> process option" where
  "startup config fs =
     (case config of None \<Rightarrow> None | Some c \<Rightarrow> Some (configure_logging (fresh_process fs)))"

section \<open>Cross-origin policy (app.py, lines 64 to 73)\<close>

record CORSMiddleware =
  allow_origins :: "string list"
  allow_credentials :: bool
  allow_methods :: "string list"
  allow_headers :: "string list"

definition origins :: "string list" where
  "origins = [''http://localhost:3000'']"

definition cors :: CORSMiddleware where
  "cors = \<lparr>allow_origins = origins, allow_credentials = True,
            allow_methods = [''*''], allow_headers = [''*'']\<rparr>"

text \<open>How the middleware reads its arguments: the entry * in a list is the wildcard. For
  methods the wildcard stands for the middleware's list of all methods.\<close>

definition ALL_METHODS :: "string list" where
  "ALL_METHODS = [''DELETE'', ''GET'', ''HEAD'', ''OPTIONS'', ''PATCH'', ''POST'', ''PUT'']"

definition allow_all_origins :: "CORSMiddleware \<Rightarrow> bool" where
  "allow_all_origins m = (''*'' \<in> set (allow_origins m))"

definition allow_all_headers :: "CORSMiddleware \<Rightarrow> bool" where
  "allow_all_headers m = (''*'' \<in> set (allow_headers m))"

definition allowed_methods :: "CORSMiddleware \<Rightarrow> string list" where
  "allowed_methods m = (if ''*'' \<in> set (allow_methods m) then ALL_METHODS else allow_methods m)"

definition is_allowed_origin :: "CORSMiddleware \<Rightarrow> string \<Rightarrow> bool" where
  "is_allowed_origin m origin = (if allow_all_origins m then True else origin \<in> set (allow_origins m))"

section \<open>Error translation (app.py, lines 78 to 151)\<close>

record Request =
  http_method :: string
  url_path :: string

record JSONResponse =
  status_code :: nat
  content :: pyval

text \<open>The five handlers. Each logs the class name at ERROR and the traceback at INFO, then
  answers with its status code and the four-field body.\<close>

definition handle_400 :: "Request \<Rightarrow> pyexc \<Rightarrow> process \<Rightarrow> JSONResponse \<times> process" where
  "handle_400 r e p =
     (let p1 = logger_error (type_name (exc_type e)) [] None p;
          p2 = logger_info ''Traceback of %s : '' [type_name (exc_type e)] (Some e) p1
      in (\<lparr>status_code = 400,
           content = VDict
             [(''title'', VStr ''Invalid Request''),
              (''message'', VStr (exc_str e)),
              (''exception'', VStr (type_name (exc_type e))),
              (''traceback'', VList (map VStr (exc_tb e)))]\<rparr>, p2))"

definition handle_409 :: "Request \<Rightarrow> pyexc \<Rightarrow> process \<Rightarrow> JSONResponse \<times> process" where
  "handle_409 r e p =
     (let p1 = logger_error (type_name (exc_type e)) [] None p;
          p2 = logger_info ''Traceback of %s : '' [type_name (exc_type e)] (Some e) p1
      in (\<lparr>status_code = 409,
           content = VDict
             [(''title'', VStr ''Invalid State''),
              (''message'', VStr (exc_str e)),
              (''exception'', VStr (type_name (exc_type e))),
              (''traceback'', VList (map VStr (exc_tb e)))]\<rparr>, p2))"

definition handle_422 :: "Request \<Rightarrow> pyexc \<Rightarrow> process \<Rightarrow> JSONResponse \<times> process" where
  "handle_422 r e p =
     (let p1 = logger_error (type_name (exc_type e)) [] None p;
          p2 = logger_info ''Traceback of %s : '' [type_name (exc_type e)] (Some e) p1
      in (\<lparr>status_code = 422,
           content = VDict
             [(''title'', VStr ''Request Validation Failed''),
              (''message'', VStr (exc_str e)),
              (''exception'', VStr (type_name (exc_type e))),
              (''traceback'', VList (map VStr (exc_tb e)))]\<rparr>, p2))"

definition handle_503 :: "Request \<Rightarrow> pyexc \<Rightarrow> process \<Rightarrow> JSONResponse \<times> process" where
  "handle_503 r e p =
     (let p1 = logger_error (type_name (exc_type e)) [] None p;
          p2 = logger_info ''Traceback of %s : '' [type_name (exc_type e)] (Some e) p1
      in (\<lparr>status_code = 503,
           content = VDict
             [(''title'', VStr ''Service Unavailable''),
              (''message'', VStr (exc_str e)),
              (''exception'', VStr (type_name (exc_type e))),
              (''traceback'', VList (map VStr (exc_tb e)))]\<rparr>, p2))"

definition handle_500 :: "Request \<Rightarrow> pyexc \<Rightarrow> process \<Rightarrow> JSONResponse \<times> process" where
  "handle_500 r e p =
     (let p1 = logger_error (type_name (exc_type e)) [] None p;
          p2 = logger_info ''Traceback of %s : '' [type_name (exc_type e)] (Some e) p1
      in (\<lparr>status_code = 500,
           content = VDict
             [(''title'', VStr ''Server Error''),
              (''message'', VStr (exc_str e)),
              (''exception'', VStr (type_name (exc_type e))),
              (''traceback'', VList (map VStr (exc_tb e)))]\<rparr>, p2))"

text \<open>The registrations \<open>@app.exception_handler(cls)\<close>: \<open>handle_500\<close> is registered for
  \<open>GeneralError\<close> and for \<open>Exception\<close>.\<close>

definition exception_handler ::
    "exc_class \<Rightarrow> Request \<Rightarrow> pyexc \<Rightarrow> process \<Rightarrow> JSONResponse \<times> process" where
  "exception_handler c =
     (case c of
        InvalidRequestError \<Rightarrow> handle_400
      | InvalidStateError \<Rightarrow> handle_409
      | RequestValidationError \<Rightarrow> handle_422
      | ServiceUnavailableError \<Rightarrow> handle_503
      | GeneralError \<Rightarrow> handle_500
      | Other name \<Rightarrow> handle_500)"

definition handle_exception :: "Request \<Rightarrow> pyexc \<Rightarrow> process \<Rightarrow> JSONResponse \<times> process" where
  "handle_exception r e p = exception_handler (exc_type e) r e p"

text \<open>The human labels of the error-translation table in section 4.2 of the
  specification, row by row, to compare the titles of the handlers with.\<close>

definition table_label :: "exc_class \<Rightarrow> string" where
  "table_label c =
     (case c of
        InvalidRequestError \<Rightarrow> ''Invalid Request''
      | InvalidStateError \<Rightarrow> ''Invalid State''
      | RequestValidationError \<Rightarrow> ''Request validation failed''
      | ServiceUnavailableError \<Rightarrow> ''Service Unavailable''
      | GeneralError \<Rightarrow> ''General / unclassified''
      | Other name \<Rightarrow> ''General / unclassified'')"

section \<open>Routes (app.py, lines 154 to 196 and 306 to 313)\<close>

text \<open>
  The controller \<open>gs\<close> is one object shared by all requests. Its single operation
  \<open>gs.call(name, *args)\<close> takes the command name and the positional arguments, may change
  the state of the controller, and returns a value or raises.
\<close>

type_synonym 'st controller = "string \<Rightarrow> pyval list \<Rightarrow> 'st \<Rightarrow> (pyexc + pyval) \<times> 'st"

definition interop_login :: "'st controller \<Rightarrow> 'st \<Rightarrow> (pyexc + pyval) \<times> 'st" where
  "interop_login gs = gs ''i_login'' []"

definition interop_mission :: "'st controller \<Rightarrow> 'st \<Rightarrow> (pyexc + pyval) \<times> 'st" where
  "interop_mission gs = gs ''i_mission'' []"

definition interop_telemetry :: "'st controller \<Rightarrow> 'st \<Rightarrow> (pyexc + pyval) \<times> 'st" where
  "interop_telemetry gs = gs ''i_telemetry'' []"

definition quick :: "'st controller \<Rightarrow> 'st \<Rightarrow> (pyexc + pyval) \<times> 'st" where
  "quick gs = gs ''m_quick'' []"

text \<open>A route as its decorator declares it.\<close>

record 'st route =
  route_method :: string
  route_path :: string
  response_model :: "(string \<times> ftype) list"
  route_status_code :: nat
  endpoint :: "'st controller \<Rightarrow> 'st \<Rightarrow> (pyexc + pyval) \<times> 'st"

definition routes :: "'st route list" where
  "routes =
     [\<lparr>route_method = ''POST'', route_path = ''/interop/login'', response_model = GeneralOut,
        route_status_code = 201, endpoint = interop_login\<rparr>,
      \<lparr>route_method = ''GET'', route_path = ''/interop/mission'', response_model = MissionOut,
        route_status_code = 200, endpoint = interop_mission\<rparr>,
      \<lparr>route_method = ''GET'', route_path = ''/interop/telemetry'', response_model = TelemetryOut,
        route_status_code = 200, endpoint = interop_telemetry\<rparr>,
      \<lparr>route_method = ''GET'', route_path = ''/uav/quick'', response_model = QuickOut,
        route_status_code = 200, endpoint = quick\<rparr>]"

text \<open>
  What the web framework does around an endpoint. The value the endpoint returns is
  validated against the response model of the route, and the validated model is the
  content of the response. The response field is optional, so \<open>None\<close> passes as it is.
  When the value does not validate, the framework raises a \<open>ValidationError\<close>. The
  content is then rendered as JSON with \<open>allow_nan=False\<close>, which raises a \<open>ValueError\<close>
  when a NaN or an infinity occurs anywhere in it. The texts and tracebacks of these two
  exceptions are the libraries' and are parameters here, like the conversions.
\<close>

record library =
  conversions :: conversion
  validation_error_str :: "verror list \<Rightarrow> string"
  validation_error_tb :: "verror list \<Rightarrow> string list"
  render_error_str :: "pyval \<Rightarrow> string"
  render_error_tb :: "pyval \<Rightarrow> string list"

definition serialize_response :: "library \<Rightarrow> (string \<times> ftype) list \<Rightarrow> pyval \<Rightarrow> pyexc + pyval" where
  "serialize_response lib model v =
     (if v = VNone then Inr VNone
      else (case validate (conversions lib) [Key ''response''] (model_t model) v of
              Inl es \<Rightarrow> Inl \<lparr>exc_type = Other ''ValidationError'',
                             exc_str = validation_error_str lib es,
                             exc_tb = validation_error_tb lib es\<rparr>
            | Inr body \<Rightarrow> Inr body))"

text \<open>What \<open>json.dumps(content, allow_nan=False)\<close> accepts: every float in the value is
  finite.\<close>

fun json_compliant :: "pyval \<Rightarrow> bool" where
  "json_compliant (VFloat f) =
     (case f of Finite x \<Rightarrow> True | PosInf \<Rightarrow> False | NegInf \<Rightarrow> False | NaN \<Rightarrow> False)"
| "json_compliant (VList xs) = list_all json_compliant xs"
| "json_compliant (VDict kvs) = list_all (\<lambda>kv. json_compliant (snd kv)) kvs"
| "json_compliant VNone = True"
| "json_compliant (VBool b) = True"
| "json_compliant (VInt i) = True"
| "json_compliant (VStr s) = True"

text \<open>\<open>JSONResponse(content, status_code)\<close> renders its content when it is constructed.\<close>

definition render :: "library \<Rightarrow> nat \<Rightarrow> pyval \<Rightarrow> pyexc + JSONResponse" where
  "render lib code body =
     (if json_compliant body then Inr \<lparr>status_code = code, content = body\<rparr>
      else Inl \<lparr>exc_type = Other ''ValueError'',
                 exc_str = render_error_str lib body,
                 exc_tb = render_error_tb lib body\<rparr>)"

text \<open>One request to a route: the endpoint runs; a value it returns is serialised,
  rendered and sent with the status code of the route; an exception, raised by the
  controller, by the serialisation or by the rendering, goes to its handler. The contents
  the handlers send hold strings only and always render.\<close>

definition handle_request ::
    "library \<Rightarrow> 'st route \<Rightarrow> 'st controller \<Rightarrow> 'st \<times> process \<Rightarrow> JSONResponse \<times> 'st \<times> process" where
  "handle_request lib rt gs st =
     (let r = \<lparr>http_method = route_method rt, url_path = route_path rt\<rparr>;
          (res, s') = endpoint rt gs (fst st)
      in case res of
           Inl e \<Rightarrow> (let (resp, p') = handle_exception r e (snd st) in (resp, s', p'))
         | Inr v \<Rightarrow>
             (case serialize_response lib (response_model rt) v of
                Inl e \<Rightarrow> (let (resp, p') = handle_exception r e (snd st) in (resp, s', p'))
              | Inr body \<Rightarrow>
                  (case render lib (route_status_code rt) body of
                     Inl e \<Rightarrow> (let (resp, p') = handle_exception r e (snd st) in (resp, s', p'))
                   | Inr resp \<Rightarrow> (resp, s', snd st))))"

text \<open>The application: the first route with the method and path of the request serves it.
  A request that matches no route is answered by the framework alone (\<open>None\<close> here).\<close>

definition app ::
    "library \<Rightarrow> string \<Rightarrow> string \<Rightarrow> 'st controller \<Rightarrow> 'st \<times> process \<Rightarrow>
     (JSONResponse \<times> 'st \<times> process) option" where
  "app lib m path gs st =
     (case find (\<lambda>rt. route_method rt = m \<and> route_path rt = path) routes of
        None \<Rightarrow> None
      | Some rt \<Rightarrow> Some (handle_request lib rt gs st))"


section \<open>Notions for stating the properties\<close>

text \<open>What validation reports for the field \<open>name\<close> of annotation \<open>t\<close> when a model is
  built from \<open>kvs\<close>: that the field is missing, or the errors of its value.\<close>

definition field_result_errors ::
    "conversion \<Rightarrow> loc_item list \<Rightarrow> string \<Rightarrow> ftype \<Rightarrow> (string \<times> pyval) list \<Rightarrow> verror list" where
  "field_result_errors conv loc name t kvs =
     (case map_of kvs name of
        None \<Rightarrow> [(loc @ [Key name], missing)]
      | Some v \<Rightarrow> errors_of (validate conv (loc @ [Key name]) t v))"

text \<open>All errors of a list lie at or below a location.\<close>

definition under :: "loc_item list \<Rightarrow> verror list \<Rightarrow> bool" where
  "under loc es = list_all (\<lambda>e. take (length loc) (fst e) = loc) es"

section \<open>Facts about validation\<close>

declare validate.simps [simp del] validate_fields.simps [simp del] validate_items.simps [simp del]

lemmas validate_eqs = validate.simps validate_fields.simps validate_items.simps

lemma coerce_native:
  "coerce conv py_float (VFloat f) = Inr (VFloat f)"
  "coerce conv py_int (VInt i) = Inr (VInt i)"
  "coerce conv py_str (VStr s) = Inr (VStr s)"
  "coerce conv py_dict (VDict d) = Inr (VDict d)"
  "coerce conv py_list (VList xs) = Inr (VList xs)"
  by (simp_all add: coerce_def has_type_def)

lemma is_valid_simps: "is_valid (Inr v)" "\<not> is_valid (Inl es)"
  by (simp_all add: is_valid_def)

lemma errors_of_simps: "errors_of (Inr v) = []" "errors_of (Inl es) = es"
  by (simp_all add: errors_of_def)

lemma is_valid_join: "is_valid (join r rs) \<longleftrightarrow> is_valid r \<and> is_valid rs"
  by (cases r; cases rs) (simp_all add: is_valid_def join_def)

lemma errors_of_join: "errors_of (join r rs) = errors_of r @ errors_of rs"
  by (cases r; cases rs) (simp_all add: errors_of_def join_def)

lemma number_size_validator_None:
  "number_size_validator f n = None \<longleftrightarrow>
     (case gt f of None \<Rightarrow> True | Some b \<Rightarrow> num_gt n b) \<and>
     (case ge f of None \<Rightarrow> True | Some b \<Rightarrow> num_ge n b) \<and>
     (case lt f of None \<Rightarrow> True | Some b \<Rightarrow> num_lt n b) \<and>
     (case le f of None \<Rightarrow> True | Some b \<Rightarrow> num_le n b)"
  by (cases "gt f"; cases "ge f"; cases "lt f"; cases "le f")
     (simp_all add: number_size_validator_def)

lemma is_valid_check_number:
  "is_valid (check_number loc f n v) \<longleftrightarrow> number_size_validator f n = None"
  by (cases "number_size_validator f n") (simp_all add: check_number_def is_valid_simps)

lemma errors_of_check_number:
  "errors_of (check_number loc f n v) =
     (case number_size_validator f n of None \<Rightarrow> [] | Some e \<Rightarrow> [(loc, e)])"
  by (cases "number_size_validator f n") (simp_all add: check_number_def errors_of_simps)

lemma is_valid_float:
  "is_valid (validate conv loc (float_t f) (VFloat x)) \<longleftrightarrow>
     number_size_validator f (NFloat x) = None"
  by (simp add: validate_eqs coerce_native is_valid_check_number)

lemma is_valid_int:
  "is_valid (validate conv loc (int_t f) (VInt i)) \<longleftrightarrow>
     number_size_validator f (NInt i) = None"
  by (simp add: validate_eqs coerce_native is_valid_check_number)

lemma is_valid_model:
  "is_valid (validate conv loc (model_t fs) (VDict kvs)) \<longleftrightarrow>
     is_valid (validate_fields conv loc fs kvs)"
  by (cases "validate_fields conv loc fs kvs") (simp_all add: validate_eqs coerce_native is_valid_simps)

lemma is_valid_list:
  "is_valid (validate conv loc (list_t t) (VList xs)) \<longleftrightarrow>
     is_valid (validate_items conv loc t 0 xs)"
  by (cases "validate_items conv loc t 0 xs") (simp_all add: validate_eqs coerce_native is_valid_simps)

lemma is_valid_fields_Nil: "is_valid (validate_fields conv loc [] kvs)"
  by (simp add: validate_eqs is_valid_simps)

lemma is_valid_fields_Cons:
  "is_valid (validate_fields conv loc ((name, t) # fs) kvs) \<longleftrightarrow>
     (case map_of kvs name of
        None \<Rightarrow> False
      | Some v \<Rightarrow> is_valid (validate conv (loc @ [Key name]) t v)) \<and>
     is_valid (validate_fields conv loc fs kvs)"
proof (cases "map_of kvs name")
  case None
  then show ?thesis by (simp add: validate_eqs is_valid_join is_valid_simps)
next
  case (Some v)
  then show ?thesis
    by (cases "validate conv (loc @ [Key name]) t v") (simp_all add: validate_eqs is_valid_join is_valid_simps)
qed

lemma float_in_oc:
  "float_gt v (- 180) \<and> float_le v 180 \<longleftrightarrow> (\<exists>x. v = Finite x \<and> - 180 < x \<and> x \<le> 180)"
  by (cases v) simp_all

section \<open>GeographicPoint\<close>

text \<open>
  C4. A \<open>LatLonDict\<close> constructed with a float latitude and a float longitude is accepted
  exactly when both are finite and lie in the interval (-180, 180], open below and closed
  above. So -180, every value above 180, the infinities and NaN are rejected, and 180 is
  accepted. Keyword arguments other than the two fields play no part.
\<close>

theorem LatLonDict_accepted_iff:
  assumes "map_of kw ''latitude'' = Some (VFloat lat)"
      and "map_of kw ''longitude'' = Some (VFloat lon)"
  shows "is_valid (construct conv LatLonDict kw) \<longleftrightarrow>
           (\<exists>x. lat = Finite x \<and> - 180 < x \<and> x \<le> 180) \<and>
           (\<exists>y. lon = Finite y \<and> - 180 < y \<and> y \<le> 180)"
proof -
  have "is_valid (construct conv LatLonDict kw) \<longleftrightarrow>
      (float_gt lat (- 180) \<and> float_le lat 180) \<and> (float_gt lon (- 180) \<and> float_le lon 180)"
    unfolding construct_def LatLonDict_def is_valid_model is_valid_fields_Cons
    by (simp add: assms is_valid_float is_valid_fields_Nil is_valid_simps
        number_size_validator_None Field_required_def)
  then show ?thesis
    by (simp only: float_in_oc)
qed

theorem LatLonDict_accepted_iff_witness:
  "is_valid (construct (\<lambda>t v. None) LatLonDict
      [(''latitude'', VFloat (Finite 180)), (''longitude'', VFloat (Finite 180))]) \<and>
   \<not> is_valid (construct (\<lambda>t v. None) LatLonDict
      [(''latitude'', VFloat (Finite (- 180))), (''longitude'', VFloat (Finite 0))]) \<and>
   \<not> is_valid (construct (\<lambda>t v. None) LatLonDict
      [(''latitude'', VFloat (Finite 0)), (''longitude'', VFloat (Finite (1801 / 10)))])"
  using LatLonDict_accepted_iff [of "[(''latitude'', VFloat (Finite 180)), (''longitude'', VFloat (Finite 180))]"
          "Finite 180" "Finite 180" "\<lambda>t v. None"]
        LatLonDict_accepted_iff [of "[(''latitude'', VFloat (Finite (- 180))), (''longitude'', VFloat (Finite 0))]"
          "Finite (- 180)" "Finite 0" "\<lambda>t v. None"]
        LatLonDict_accepted_iff [of "[(''latitude'', VFloat (Finite 0)), (''longitude'', VFloat (Finite (1801 / 10)))]"
          "Finite 0" "Finite (1801 / 10)" "\<lambda>t v. None"]
  by simp

section \<open>Error translation\<close>

lemmas handler_defs =
  handle_400_def handle_409_def handle_422_def handle_503_def handle_500_def

text \<open>The response of the error translation, for every exception: it does not depend on
  the request nor on the state of the logger.\<close>

lemma handle_exception_response:
  "fst (handle_exception r e p) =
     \<lparr>status_code =
        (case exc_type e of
           InvalidRequestError \<Rightarrow> 400
         | InvalidStateError \<Rightarrow> 409
         | RequestValidationError \<Rightarrow> 422
         | ServiceUnavailableError \<Rightarrow> 503
         | GeneralError \<Rightarrow> 500
         | Other name \<Rightarrow> 500),
      content = VDict
        [(''title'', VStr
            (case exc_type e of
               InvalidRequestError \<Rightarrow> ''Invalid Request''
             | InvalidStateError \<Rightarrow> ''Invalid State''
             | RequestValidationError \<Rightarrow> ''Request Validation Failed''
             | ServiceUnavailableError \<Rightarrow> ''Service Unavailable''
             | GeneralError \<Rightarrow> ''Server Error''
             | Other name \<Rightarrow> ''Server Error'')),
         (''message'', VStr (exc_str e)),
         (''exception'', VStr (type_name (exc_type e))),
         (''traceback'', VList (map VStr (exc_tb e)))]\<rparr>"
  by (cases "exc_type e")
     (simp_all add: handle_exception_def exception_handler_def handler_defs Let_def)

lemma handle_request_raises:
  assumes "endpoint rt gs s = (Inl e, s')"
  shows "handle_request lib rt gs (s, p) =
           (fst (handle_exception \<lparr>http_method = route_method rt, url_path = route_path rt\<rparr> e p),
            s',
            snd (handle_exception \<lparr>http_method = route_method rt, url_path = route_path rt\<rparr> e p))"
  using assms by (simp add: handle_request_def Let_def split_beta)

text \<open>
  C1. Every failure the translation layer receives is answered with the status code of its
  kind: 400 for \<open>InvalidRequestError\<close>, 409 for \<open>InvalidStateError\<close>, 422 for
  \<open>RequestValidationError\<close>, 503 for \<open>ServiceUnavailableError\<close>, and 500 for \<open>GeneralError\<close>
  and for every other exception. The body is always a JSON object with exactly the fields
  title, message, exception and traceback, in this order. A request whose endpoint raises
  is answered with exactly this response.
\<close>

theorem failure_status_and_body:
  "(status_code (fst (handle_exception r e p)) =
      (case exc_type e of
         InvalidRequestError \<Rightarrow> 400
       | InvalidStateError \<Rightarrow> 409
       | RequestValidationError \<Rightarrow> 422
       | ServiceUnavailableError \<Rightarrow> 503
       | GeneralError \<Rightarrow> 500
       | Other name \<Rightarrow> 500) \<and>
    (\<exists>title.
       content (fst (handle_exception r e p)) =
         VDict [(''title'', VStr title),
                (''message'', VStr (exc_str e)),
                (''exception'', VStr (type_name (exc_type e))),
                (''traceback'', VList (map VStr (exc_tb e)))])) \<and>
   (endpoint rt gs s = (Inl e, s') \<longrightarrow>
      fst (handle_request lib rt gs (s, p)) =
        fst (handle_exception \<lparr>http_method = route_method rt, url_path = route_path rt\<rparr> e p))"
  by (simp add: handle_exception_response handle_request_raises)

theorem failure_status_and_body_witness:
  "status_code (fst (handle_request
      \<lparr>conversions = (\<lambda>t v. None), validation_error_str = (\<lambda>es. []),
        validation_error_tb = (\<lambda>es. []), render_error_str = (\<lambda>v. []),
        render_error_tb = (\<lambda>v. [])\<rparr>
      \<lparr>route_method = ''POST'', route_path = ''/interop/login'', response_model = GeneralOut,
        route_status_code = 201, endpoint = interop_login\<rparr>
      (\<lambda>name as s. (Inl \<lparr>exc_type = ServiceUnavailableError, exc_str = ''no link'', exc_tb = []\<rparr>, s))
      ((), fresh_process (\<lambda>name. None)))) = 503"
  using failure_status_and_body
     [of "\<lparr>http_method = ''POST'', url_path = ''/interop/login''\<rparr>"
         "\<lparr>exc_type = ServiceUnavailableError, exc_str = ''no link'', exc_tb = []\<rparr>"
         "fresh_process (\<lambda>name. None)"
         "\<lparr>route_method = ''POST'', route_path = ''/interop/login'', response_model = GeneralOut,
           route_status_code = 201, endpoint = interop_login\<rparr>"
         "\<lambda>name as s. (Inl \<lparr>exc_type = ServiceUnavailableError, exc_str = ''no link'', exc_tb = []\<rparr>, s)"
         "()" "()"
         "\<lparr>conversions = (\<lambda>t v. None), validation_error_str = (\<lambda>es. []),
        validation_error_tb = (\<lambda>es. []), render_error_str = (\<lambda>v. []),
        render_error_tb = (\<lambda>v. [])\<rparr>"]
  by (simp add: interop_login_def)

text \<open>
  C2, as the handlers implement it. The title of the envelope is the fixed text of the
  handler: Invalid Request, Invalid State, Request Validation Failed, Service Unavailable,
  and Server Error for \<open>GeneralError\<close> and every other exception. The message is
  \<open>str(e)\<close>, the exception field is the name of the class of the exception, and the
  traceback is the list of the formatted traceback lines.
\<close>

theorem envelope_fields:
  "content (fst (handle_exception r e p)) =
     VDict
       [(''title'', VStr
           (case exc_type e of
              InvalidRequestError \<Rightarrow> ''Invalid Request''
            | InvalidStateError \<Rightarrow> ''Invalid State''
            | RequestValidationError \<Rightarrow> ''Request Validation Failed''
            | ServiceUnavailableError \<Rightarrow> ''Service Unavailable''
            | GeneralError \<Rightarrow> ''Server Error''
            | Other name \<Rightarrow> ''Server Error'')),
        (''message'', VStr (exc_str e)),
        (''exception'', VStr (type_name (exc_type e))),
        (''traceback'', VList (map VStr (exc_tb e)))]"
  by (simp add: handle_exception_response)

text \<open>
  C2 as the specification words it does not hold: for a \<open>GeneralError\<close> the title of the
  envelope is Server Error, not the label General / unclassified of the table.
\<close>

theorem envelope_title_counterexample:
  "content (fst (handle_exception
      \<lparr>http_method = ''POST'', url_path = ''/interop/login''\<rparr>
      \<lparr>exc_type = GeneralError, exc_str = ''login failed'', exc_tb = []\<rparr>
      (fresh_process (\<lambda>name. None)))) \<noteq>
   VDict
     [(''title'', VStr (table_label GeneralError)),
      (''message'', VStr ''login failed''),
      (''exception'', VStr (type_name GeneralError)),
      (''traceback'', VList (map VStr []))]"
  by (simp add: handle_exception_response table_label_def)

section \<open>Cross-origin policy\<close>

text \<open>
  C7. The installed policy allows the origin http://localhost:3000 and no other origin
  (http://evil.example is not allowed); its method list is the wildcard, which stands for
  all methods of the middleware, its header list is the wildcard, and credentials are
  allowed.
\<close>

theorem cors_policy:
  "(is_allowed_origin cors origin \<longleftrightarrow> origin = ''http://localhost:3000'') \<and>
   \<not> is_allowed_origin cors ''http://evil.example'' \<and>
   allowed_methods cors = ALL_METHODS \<and>
   allow_all_headers cors \<and>
   allow_credentials cors"
  by (simp add: is_allowed_origin_def allow_all_origins_def cors_def origins_def
      allowed_methods_def allow_all_headers_def)

section \<open>Logging bootstrap\<close>

lemmas logging_defs =
  configure_logging_def fresh_process_def setLevel_def open_file_def addHandler_def
  print_def logger_info_def logger_log_def callHandlers_def emit_def console_handler_def
  file_handler_def debug_file_handler_def NOTSET_def DEBUG_def INFO_def WARNING_def ERROR_def

text \<open>
  C8. Whatever the working directory held, after startup with a readable configuration the
  logger has exactly three handlers: the console handler at WARNING (30), the handler of
  log.txt at INFO (20) and the handler of debug_log.txt at DEBUG (10), both files opened in
  mode w. Both files hold exactly one record, the INFO record LOGGING STARTED, so what
  they held before is gone; the console sink has received nothing, and the one console
  line LOGGING STARTED has been printed to standard output. No other file is touched.
\<close>

theorem logging_after_startup:
  "startup (Some config) fs = Some (configure_logging (fresh_process fs)) \<and>
   logger_level (configure_logging (fresh_process fs)) = 10 \<and>
   handlers (configure_logging (fresh_process fs)) =
     [\<lparr>kind = StreamHandler, level = 30, formatter = formatter_main\<rparr>,
      \<lparr>kind = FileHandler ''log.txt'' ''w'', level = 20, formatter = formatter_main\<rparr>,
      \<lparr>kind = FileHandler ''debug_log.txt'' ''w'', level = 10, formatter = formatter_main\<rparr>] \<and>
   stdout (configure_logging (fresh_process fs)) = [''LOGGING STARTED''] \<and>
   stderr (configure_logging (fresh_process fs)) = [] \<and>
   files (configure_logging (fresh_process fs)) ''log.txt'' =
     Some [\<lparr>levelno = 20, msg = ''LOGGING STARTED'', args = [], exc_info = None\<rparr>] \<and>
   files (configure_logging (fresh_process fs)) ''debug_log.txt'' =
     Some [\<lparr>levelno = 20, msg = ''LOGGING STARTED'', args = [], exc_info = None\<rparr>] \<and>
   (name = ''log.txt'' \<or> name = ''debug_log.txt'' \<or>
      files (configure_logging (fresh_process fs)) name = fs name)"
  by (simp add: startup_def logging_defs Let_def)

section \<open>Routes\<close>

lemma find_login:
  "find (\<lambda>rt. route_method rt = ''POST'' \<and> route_path rt = ''/interop/login'')
      (routes :: 'st route list) =
     Some \<lparr>route_method = ''POST'', route_path = ''/interop/login'', response_model = GeneralOut,
       route_status_code = 201, endpoint = interop_login\<rparr>"
  by (simp add: routes_def)

lemma find_telemetry:
  "find (\<lambda>rt. route_method rt = ''GET'' \<and> route_path rt = ''/interop/telemetry'')
      (routes :: 'st route list) =
     Some \<lparr>route_method = ''GET'', route_path = ''/interop/telemetry'',
       response_model = TelemetryOut, route_status_code = 200, endpoint = interop_telemetry\<rparr>"
  by (simp add: routes_def)


text \<open>The response to a request depends on the result of the endpoint alone, and the
  state of the controller after the request is the one the endpoint left.\<close>

lemma handle_request_response:
  "fst (handle_request lib rt gs (s, p)) =
     (case fst (endpoint rt gs s) of
        Inl e \<Rightarrow>
          fst (handle_exception \<lparr>http_method = route_method rt, url_path = route_path rt\<rparr> e p)
      | Inr v \<Rightarrow>
          (case serialize_response lib (response_model rt) v of
             Inl e \<Rightarrow>
               fst (handle_exception \<lparr>http_method = route_method rt, url_path = route_path rt\<rparr> e p)
           | Inr body \<Rightarrow>
               (case render lib (route_status_code rt) body of
                  Inl e \<Rightarrow>
                    fst (handle_exception
                           \<lparr>http_method = route_method rt, url_path = route_path rt\<rparr> e p)
                | Inr resp \<Rightarrow> resp)))"
  by (simp add: handle_request_def Let_def split_beta split: sum.split)

lemma handle_request_state:
  "fst (snd (handle_request lib rt gs (s, p))) = snd (endpoint rt gs s)"
  by (simp add: handle_request_def Let_def split_beta split: sum.split)




text \<open>What the route answers in the other cases: a payload that holds a NaN is answered
  with 500, and so is a result that is not a dict; a controller that returns \<open>None\<close> is
  answered with 201 and the body null.\<close>

lemma interop_login_other_cases:
  "map_option (\<lambda>x. status_code (fst x))
     (app lib ''POST'' ''/interop/login''
        (\<lambda>name as s. (Inr (VDict [(''result'', VDict [(''x'', VFloat NaN)])]), s)) (s, p)) =
   Some 500"
  "conversions lib py_dict (VInt 1) = None \<Longrightarrow>
   map_option (\<lambda>x. status_code (fst x))
     (app lib ''POST'' ''/interop/login''
        (\<lambda>name as s. (Inr (VDict [(''result'', VInt 1)]), s)) (s, p)) =
   Some 500"
  "map_option fst
     (app lib ''POST'' ''/interop/login'' (\<lambda>name as s. (Inr VNone, s)) (s, p)) =
   Some \<lparr>status_code = 201, content = VNone\<rparr>"
  by (simp_all add: app_def find_login handle_request_response handle_exception_response
      interop_login_def serialize_response_def render_def GeneralOut_def validate_eqs
      coerce_native coerce_def has_type_def join_def errors_of_def)

text \<open>
  C9. Two successive requests GET /interop/telemetry, the second served in the state the
  first one left, get the same response whenever the call \<open>gs.call("i_telemetry")\<close> gives
  the same result both times. The first request changes the state of the controller only
  through that call.
\<close>

theorem interop_telemetry_repeatable:
  assumes "app lib ''GET'' ''/interop/telemetry'' gs (s0, p0) = Some (r1, s1, p1)"
      and "app lib ''GET'' ''/interop/telemetry'' gs (s1, p1) = Some (r2, s2, p2)"
      and "fst (gs ''i_telemetry'' [] s0) = fst (gs ''i_telemetry'' [] s1)"
  shows "r1 = r2 \<and> s1 = snd (gs ''i_telemetry'' [] s0)"
proof -
  let ?rt = "\<lparr>route_method = ''GET'', route_path = ''/interop/telemetry'',
      response_model = TelemetryOut, route_status_code = 200,
      endpoint = interop_telemetry\<rparr> :: 'a route"
  have 1: "r1 = fst (handle_request lib ?rt gs (s0, p0))"
    using assms(1) by (simp add: app_def find_telemetry)
  have 2: "r2 = fst (handle_request lib ?rt gs (s1, p1))"
    using assms(2) by (simp add: app_def find_telemetry)
  have 3: "s1 = fst (snd (handle_request lib ?rt gs (s0, p0)))"
    using assms(1) by (simp add: app_def find_telemetry)
  have "r1 = r2"
    unfolding 1 2 handle_request_response handle_exception_response
    using assms(3) by (simp add: interop_telemetry_def)
  moreover have "s1 = snd (gs ''i_telemetry'' [] s0)"
    unfolding 3 handle_request_state by (simp add: interop_telemetry_def)
  ultimately show ?thesis by simp
qed

lemmas eval_simps =
  validate_eqs coerce_native check_number_def number_size_validator_def join_def
  errors_of_def is_valid_def Field_required_def

theorem interop_telemetry_repeatable_witness:
  "map_option fst
     (app \<lparr>conversions = (\<lambda>t v. None), validation_error_str = (\<lambda>es. []),
        validation_error_tb = (\<lambda>es. []), render_error_str = (\<lambda>v. []),
        render_error_tb = (\<lambda>v. [])\<rparr>
        ''GET'' ''/interop/telemetry''
        (\<lambda>name as s. (Inr (VDict [(''result'', VDict
          [(''latitude'', VFloat (Finite 38)), (''longitude'', VFloat (Finite (- 77))),
           (''altitude'', VInt 150), (''heading'', VInt 270)])]), Suc s))
        (0, fresh_process (\<lambda>name. None))) =
   Some \<lparr>status_code = 200, content = (VDict [(''result'', VDict
          [(''latitude'', VFloat (Finite 38)), (''longitude'', VFloat (Finite (- 77))),
           (''altitude'', VInt 150), (''heading'', VInt 270)])])\<rparr> \<and>
   map_option fst
     (app \<lparr>conversions = (\<lambda>t v. None), validation_error_str = (\<lambda>es. []),
        validation_error_tb = (\<lambda>es. []), render_error_str = (\<lambda>v. []),
        render_error_tb = (\<lambda>v. [])\<rparr>
        ''GET'' ''/interop/telemetry''
        (\<lambda>name as s. (Inr (VDict [(''result'', VDict
          [(''latitude'', VFloat (Finite 38)), (''longitude'', VFloat (Finite (- 77))),
           (''altitude'', VInt 150), (''heading'', VInt 270)])]), Suc s))
        (Suc 0, fresh_process (\<lambda>name. None))) =
   Some \<lparr>status_code = 200, content = (VDict [(''result'', VDict
          [(''latitude'', VFloat (Finite 38)), (''longitude'', VFloat (Finite (- 77))),
           (''altitude'', VInt 150), (''heading'', VInt 270)])])\<rparr>"
proof -
  let ?lib = "\<lparr>conversions = (\<lambda>t v. None), validation_error_str = (\<lambda>es. []),
        validation_error_tb = (\<lambda>es. []), render_error_str = (\<lambda>v. []),
        render_error_tb = (\<lambda>v. [])\<rparr>"
  let ?tel = "(VDict [(''result'', VDict
          [(''latitude'', VFloat (Finite 38)), (''longitude'', VFloat (Finite (- 77))),
           (''altitude'', VInt 150), (''heading'', VInt 270)])])"
  let ?gs = "\<lambda>(name :: string) (as :: pyval list) (s :: nat). (Inr ?tel :: pyexc + pyval, Suc s)"
  let ?p = "fresh_process (\<lambda>name. None)"
  have ser: "serialize_response ?lib TelemetryOut ?tel = Inr ?tel"
    by (simp add: serialize_response_def TelemetryOut_def TelemetryDict_def LatLonAltDict_def
        LatLonDict_def eval_simps)
  have h1: "app ?lib ''GET'' ''/interop/telemetry'' ?gs (0, ?p) =
      Some (\<lparr>status_code = 200, content = ?tel\<rparr>, Suc 0, ?p)"
    by (simp add: app_def find_telemetry handle_request_def interop_telemetry_def ser
        render_def)
  have h2: "app ?lib ''GET'' ''/interop/telemetry'' ?gs (Suc 0, ?p) =
      Some (\<lparr>status_code = 200, content = ?tel\<rparr>, Suc (Suc 0), ?p)"
    by (simp add: app_def find_telemetry handle_request_def interop_telemetry_def ser
        render_def)
  have h3: "fst (?gs ''i_telemetry'' [] 0) = fst (?gs ''i_telemetry'' [] (Suc 0))"
    by simp
  show ?thesis
    using interop_telemetry_repeatable [OF h1 h2 h3] h1 h2 by simp
qed

section \<open>Errors field by field\<close>

lemma under_simps:
  "under loc []" "under loc [(loc, e)]" "under loc (es @ es') \<longleftrightarrow> under loc es \<and> under loc es'"
  by (simp_all add: under_def)

lemma under_shorter: "under (loc @ [k]) es \<Longrightarrow> under loc es"
proof -
  have "take (length loc) l = loc" if "take (Suc (length loc)) l = loc @ [k]" for l :: "loc_item list"
  proof -
    have "take (length loc) (take (Suc (length loc)) l) = take (length loc) (loc @ [k])"
      using that by simp
    then show ?thesis by simp
  qed
  then show "under (loc @ [k]) es \<Longrightarrow> under loc es"
    by (induction es) (simp_all add: under_def)
qed

lemma under_check_number: "under loc (errors_of (check_number loc f n v))"
  by (cases "number_size_validator f n") (simp_all add: errors_of_check_number under_simps)

lemma errors_of_case_sum:
  "errors_of (case r of Inl es \<Rightarrow> Inl es | Inr x \<Rightarrow> Inr (g x)) = errors_of r"
  by (cases r) (simp_all add: errors_of_simps)

lemma under_validate:
  "under loc (errors_of (validate conv loc t v))"
  "under loc (errors_of (validate_fields conv loc fs kvs))"
  "under loc (errors_of (validate_items conv loc t i xs))"
proof (induction conv loc t v and conv loc fs kvs and conv loc t i xs
    rule: validate_validate_fields_validate_items.induct)
  case (1 conv loc f v)
  show ?case
    by (auto simp: validate_eqs under_simps errors_of_simps under_check_number
        split: sum.split pyval.split)
next
  case (2 conv loc f v)
  show ?case
    by (auto simp: validate_eqs under_simps errors_of_simps under_check_number
        split: sum.split pyval.split)
next
  case (3 conv loc v)
  show ?case
    by (auto simp: validate_eqs under_simps errors_of_simps split: sum.split)
next
  case (4 conv loc v)
  show ?case
    by (auto simp: validate_eqs under_simps errors_of_simps split: sum.split)
next
  case (5 conv loc t v)
  show ?case
  proof (cases "coerce conv py_list v")
    case (Inl e)
    then show ?thesis by (simp add: validate_eqs under_simps errors_of_simps)
  next
    case (Inr v')
    show ?thesis
    proof (cases v')
      case (VList xs)
      with Inr 5 show ?thesis
        by (simp add: validate_eqs errors_of_case_sum)
    qed (simp_all add: Inr validate_eqs under_simps errors_of_simps)
  qed
next
  case (6 conv loc fs v)
  show ?case
  proof (cases "coerce conv py_dict v")
    case (Inl e)
    then show ?thesis by (simp add: validate_eqs under_simps errors_of_simps)
  next
    case (Inr v')
    show ?thesis
    proof (cases v')
      case (VDict kvs)
      with Inr 6 show ?thesis
        by (simp add: validate_eqs errors_of_case_sum)
    qed (simp_all add: Inr validate_eqs under_simps errors_of_simps)
  qed
next
  case (7 conv loc kvs)
  show ?case by (simp add: validate_eqs under_simps errors_of_simps)
next
  case (8 conv loc name t fs kvs)
  show ?case
  proof (cases "map_of kvs name")
    case None
    with 8 show ?thesis
      by (simp add: validate_eqs errors_of_join errors_of_simps under_simps under_def)
  next
    case (Some v)
    with 8 have "under (loc @ [Key name]) (errors_of (validate conv (loc @ [Key name]) t v))"
      by simp
    then have "under loc (errors_of (validate conv (loc @ [Key name]) t v))"
      by (rule under_shorter)
    with Some 8 show ?thesis
      by (simp add: validate_eqs errors_of_join errors_of_case_sum under_simps)
  qed
next
  case (9 conv loc t i)
  show ?case by (simp add: validate_eqs under_simps errors_of_simps)
next
  case (10 conv loc t i x xs)
  from 10 have "under loc (errors_of (validate conv (loc @ [Idx i]) t x))"
    by (simp add: under_shorter)
  with 10 show ?case
    by (simp add: validate_eqs errors_of_join under_simps)
qed

lemma errors_of_model:
  "errors_of (validate conv loc (model_t fs) (VDict kvs)) = errors_of (validate_fields conv loc fs kvs)"
  by (simp add: validate_eqs coerce_native errors_of_case_sum)

lemma errors_of_fields_Cons:
  "errors_of (validate_fields conv loc ((name, t) # fs) kvs) =
     field_result_errors conv loc name t kvs @ errors_of (validate_fields conv loc fs kvs)"
  by (cases "map_of kvs name")
     (simp_all add: validate_eqs errors_of_join errors_of_simps errors_of_case_sum
       field_result_errors_def)

lemma under_field_result: "under [Key name] (field_result_errors conv [] name t kvs)"
proof (cases "map_of kvs name")
  case None
  then show ?thesis by (simp add: field_result_errors_def under_def)
next
  case (Some v)
  then show ?thesis
    using under_validate(1) [of "[Key name]" conv t v] by (simp add: field_result_errors_def)
qed

lemma field_errors_append:
  "field_errors name (es @ es') = field_errors name es @ field_errors name es'"
  by (simp add: field_errors_def)

lemma field_errors_same: "under [Key name] es \<Longrightarrow> field_errors name es = es"
  by (induction es) (simp_all add: field_errors_def under_def)

lemma field_errors_other: "under [Key n] es \<Longrightarrow> n \<noteq> name \<Longrightarrow> field_errors name es = []"
  by (induction es) (auto simp add: field_errors_def under_def)

lemma field_errors_fields:
  assumes "distinct (map fst fs)"
  shows "field_errors name (errors_of (validate_fields conv [] fs kvs)) =
           (case map_of fs name of
              None \<Rightarrow> []
            | Some t \<Rightarrow> field_result_errors conv [] name t kvs)"
  using assms
proof (induction fs)
  case Nil
  then show ?case by (simp add: validate_eqs errors_of_simps field_errors_def)
next
  case (Cons a fs)
  obtain n t where a: "a = (n, t)" by (cases a)
  show ?case
  proof (cases "n = name")
    case True
    with Cons a have "map_of fs name = None"
      by (simp add: map_of_eq_None_iff)
    with Cons a True show ?thesis
      by (simp add: errors_of_fields_Cons field_errors_append field_errors_same under_field_result)
  next
    case False
    with Cons a show ?thesis
      by (simp add: errors_of_fields_Cons field_errors_append
          field_errors_other [OF under_field_result])
  qed
qed

lemma field_errors_construct:
  assumes "distinct (map fst model)" and "map_of model name = Some t"
  shows "field_errors name (errors_of (construct conv model kw)) =
           field_result_errors conv [] name t kw"
  using assms by (simp add: construct_def errors_of_model field_errors_fields)

lemma is_valid_errors: "is_valid r \<Longrightarrow> errors_of r = []"
  by (cases r) (simp_all add: is_valid_simps errors_of_simps)

lemma errors_of_float:
  "errors_of (validate conv loc (float_t f) (VFloat x)) = [] \<longleftrightarrow>
     number_size_validator f (NFloat x) = None"
  by (cases "number_size_validator f (NFloat x)")
     (simp_all add: validate_eqs coerce_native errors_of_check_number)

lemma errors_of_int:
  "errors_of (validate conv loc (int_t f) (VInt i)) = [] \<longleftrightarrow>
     number_size_validator f (NInt i) = None"
  by (cases "number_size_validator f (NInt i)")
     (simp_all add: validate_eqs coerce_native errors_of_check_number)

lemma float_in_co: "float_ge v 0 \<and> float_lt v 20 \<longleftrightarrow> (\<exists>x. v = Finite x \<and> 0 \<le> x \<and> x < 20)"
  by (cases v) simp_all

lemmas model_defs =
  QuickDict_def OrientationDict_def LatLonDict_def LatLonAltDict_def TelemetryDict_def
  FlyZoneDict_def

lemma float_nonneg: "float_ge v 0 \<longleftrightarrow> v = PosInf \<or> (\<exists>x. v = Finite x \<and> 0 \<le> x)"
  by (cases v) simp_all

lemma is_valid_items_Nil: "is_valid (validate_items conv loc t i [])"
  by (simp add: validate_eqs is_valid_simps)

lemma is_valid_items_Cons:
  "is_valid (validate_items conv loc t i (x # xs)) \<longleftrightarrow>
     is_valid (validate conv (loc @ [Idx i]) t x) \<and>
     is_valid (validate_items conv loc t (Suc i) xs)"
  by (simp add: validate_eqs is_valid_join)

section \<open>QuickStatus\<close>

text \<open>
  C5. In every construction of a \<open>QuickDict\<close> with a float voltage and an int throttle,
  whatever the other keyword arguments are, validation reports no error for the field
  voltage exactly when the voltage is finite with 0 \<le> voltage < 20, and no error for the
  field throttle exactly when 0 \<le> throttle \<le> 100. A construction that succeeds has both
  in range. So the throttle values 0 and 100 are accepted and the voltage 20 is rejected.
\<close>

theorem QuickDict_voltage_throttle:
  assumes "map_of kw ''voltage'' = Some (VFloat v)"
      and "map_of kw ''throttle'' = Some (VInt t)"
  shows "(field_errors ''voltage'' (errors_of (construct conv QuickDict kw)) = [] \<longleftrightarrow>
            (\<exists>x. v = Finite x \<and> 0 \<le> x \<and> x < 20)) \<and>
         (field_errors ''throttle'' (errors_of (construct conv QuickDict kw)) = [] \<longleftrightarrow>
            0 \<le> t \<and> t \<le> 100) \<and>
         (is_valid (construct conv QuickDict kw) \<longrightarrow>
            (\<exists>x. v = Finite x \<and> 0 \<le> x \<and> x < 20) \<and> 0 \<le> t \<and> t \<le> 100)"
proof -
  have d: "distinct (map fst QuickDict)"
    by (simp add: QuickDict_def)
  have v: "field_errors ''voltage'' (errors_of (construct conv QuickDict kw)) = [] \<longleftrightarrow>
      float_ge v 0 \<and> float_lt v 20"
    by (subst field_errors_construct
          [OF d, where t = "float_t (Field_required\<lparr>ge := Some 0, lt := Some 20\<rparr>)"])
       (simp_all add: QuickDict_def field_result_errors_def assms errors_of_float
         number_size_validator_None Field_required_def)
  have t: "field_errors ''throttle'' (errors_of (construct conv QuickDict kw)) = [] \<longleftrightarrow>
      0 \<le> t \<and> t \<le> 100"
    by (subst field_errors_construct
          [OF d, where t = "int_t (Field_required\<lparr>ge := Some 0, le := Some 100\<rparr>)"])
       (simp_all add: QuickDict_def field_result_errors_def assms errors_of_int
         number_size_validator_None Field_required_def)
  have a: "field_errors name (errors_of (construct conv QuickDict kw)) = []"
    if "is_valid (construct conv QuickDict kw)" for name
    using that by (simp add: is_valid_errors field_errors_def)
  from v t a show ?thesis
    by (simp only: float_in_co) blast
qed

text \<open>The boundary values, on a status whose other fields are valid: throttle 0 and
  throttle 100 are accepted, voltage 20 is rejected with the error that it is not less
  than 20.\<close>

lemma QuickDict_boundaries:
  "is_valid (construct conv QuickDict
      [(''altitude'', VFloat (Finite 150)),
       (''orientation'', VDict [(''yaw'', VInt 270), (''roll'', VInt 24), (''pitch'', VInt 3)]),
       (''ground_speed'', VFloat (Finite 56)), (''air_speed'', VFloat (Finite 54)),
       (''dist_to_wp'', VFloat (Finite 152)), (''voltage'', VFloat (Finite 14)),
       (''throttle'', VInt 0), (''lat'', VFloat (Finite 38)),
       (''lon'', VFloat (Finite (- 77)))])"
  "is_valid (construct conv QuickDict
      [(''altitude'', VFloat (Finite 150)),
       (''orientation'', VDict [(''yaw'', VInt 270), (''roll'', VInt 24), (''pitch'', VInt 3)]),
       (''ground_speed'', VFloat (Finite 56)), (''air_speed'', VFloat (Finite 54)),
       (''dist_to_wp'', VFloat (Finite 152)), (''voltage'', VFloat (Finite 14)),
       (''throttle'', VInt 100), (''lat'', VFloat (Finite 38)),
       (''lon'', VFloat (Finite (- 77)))])"
  "construct conv QuickDict
      [(''altitude'', VFloat (Finite 150)),
       (''orientation'', VDict [(''yaw'', VInt 270), (''roll'', VInt 24), (''pitch'', VInt 3)]),
       (''ground_speed'', VFloat (Finite 56)), (''air_speed'', VFloat (Finite 54)),
       (''dist_to_wp'', VFloat (Finite 152)), (''voltage'', VFloat (Finite 20)),
       (''throttle'', VInt 65), (''lat'', VFloat (Finite 38)),
       (''lon'', VFloat (Finite (- 77)))] =
   Inl [([Key ''voltage''], not_lt 20)]"
  by (simp_all add: construct_def model_defs eval_simps)

theorem QuickDict_voltage_throttle_witness:
  "field_errors ''voltage'' (errors_of (construct (\<lambda>t v. None) QuickDict
      [(''altitude'', VFloat (Finite 150)),
       (''orientation'', VDict [(''yaw'', VInt 270), (''roll'', VInt 24), (''pitch'', VInt 3)]),
       (''ground_speed'', VFloat (Finite 56)), (''air_speed'', VFloat (Finite 54)),
       (''dist_to_wp'', VFloat (Finite 152)), (''voltage'', VFloat (Finite 20)),
       (''throttle'', VInt 100), (''lat'', VFloat (Finite 38)),
       (''lon'', VFloat (Finite (- 77)))])) \<noteq> [] \<and>
   field_errors ''throttle'' (errors_of (construct (\<lambda>t v. None) QuickDict
      [(''altitude'', VFloat (Finite 150)),
       (''orientation'', VDict [(''yaw'', VInt 270), (''roll'', VInt 24), (''pitch'', VInt 3)]),
       (''ground_speed'', VFloat (Finite 56)), (''air_speed'', VFloat (Finite 54)),
       (''dist_to_wp'', VFloat (Finite 152)), (''voltage'', VFloat (Finite 20)),
       (''throttle'', VInt 100), (''lat'', VFloat (Finite 38)),
       (''lon'', VFloat (Finite (- 77)))])) = [] \<and>
   \<not> is_valid (construct (\<lambda>t v. None) QuickDict
      [(''altitude'', VFloat (Finite 150)),
       (''orientation'', VDict [(''yaw'', VInt 270), (''roll'', VInt 24), (''pitch'', VInt 3)]),
       (''ground_speed'', VFloat (Finite 56)), (''air_speed'', VFloat (Finite 54)),
       (''dist_to_wp'', VFloat (Finite 152)), (''voltage'', VFloat (Finite 20)),
       (''throttle'', VInt 100), (''lat'', VFloat (Finite 38)),
       (''lon'', VFloat (Finite (- 77)))])"
  using QuickDict_voltage_throttle
    [of "[(''altitude'', VFloat (Finite 150)),
       (''orientation'', VDict [(''yaw'', VInt 270), (''roll'', VInt 24), (''pitch'', VInt 3)]),
       (''ground_speed'', VFloat (Finite 56)), (''air_speed'', VFloat (Finite 54)),
       (''dist_to_wp'', VFloat (Finite 152)), (''voltage'', VFloat (Finite 20)),
       (''throttle'', VInt 100), (''lat'', VFloat (Finite 38)),
       (''lon'', VFloat (Finite (- 77)))]"
        "Finite 20" 100 "\<lambda>t v. None"]
  by simp

section \<open>FlightZone\<close>

text \<open>
  C6. A \<open>FlyZoneDict\<close> constructed with int altitudes is accepted exactly when
  altitudeMin \<ge> 0, altitudeMax \<ge> 0 and the boundary points are valid: no relation
  between the two altitudes is checked. A zone with altitudeMin = 750 above
  altitudeMax = 100 is accepted.
\<close>

theorem FlyZoneDict_altitudes:
  assumes "map_of kw ''altitudeMin'' = Some (VInt lo)"
      and "map_of kw ''altitudeMax'' = Some (VInt hi)"
      and "map_of kw ''boundaryPoints'' = Some pts"
  shows "(is_valid (construct conv FlyZoneDict kw) \<longleftrightarrow>
            0 \<le> lo \<and> 0 \<le> hi \<and>
            is_valid (validate conv [Key ''boundaryPoints''] (list_t (model_t LatLonDict)) pts)) \<and>
         is_valid (construct conv FlyZoneDict
            [(''altitudeMin'', VInt 750), (''altitudeMax'', VInt 100),
             (''boundaryPoints'', VList
                [VDict [(''latitude'', VFloat (Finite 38)), (''longitude'', VFloat (Finite (- 77)))],
                 VDict [(''latitude'', VFloat (Finite 39)), (''longitude'', VFloat (Finite (- 77)))],
                 VDict [(''latitude'', VFloat (Finite 39)), (''longitude'', VFloat (Finite (- 76)))]])])"
proof
  show "is_valid (construct conv FlyZoneDict kw) \<longleftrightarrow>
            0 \<le> lo \<and> 0 \<le> hi \<and>
            is_valid (validate conv [Key ''boundaryPoints''] (list_t (model_t LatLonDict)) pts)"
    unfolding construct_def FlyZoneDict_def is_valid_model is_valid_fields_Cons
    by (simp add: assms is_valid_int is_valid_fields_Nil number_size_validator_None Field_required_def)
  show "is_valid (construct conv FlyZoneDict
            [(''altitudeMin'', VInt 750), (''altitudeMax'', VInt 100),
             (''boundaryPoints'', VList
                [VDict [(''latitude'', VFloat (Finite 38)), (''longitude'', VFloat (Finite (- 77)))],
                 VDict [(''latitude'', VFloat (Finite 39)), (''longitude'', VFloat (Finite (- 77)))],
                 VDict [(''latitude'', VFloat (Finite 39)), (''longitude'', VFloat (Finite (- 76)))]])])"
    unfolding construct_def FlyZoneDict_def LatLonDict_def is_valid_model is_valid_fields_Cons
    by (simp add: is_valid_int is_valid_float is_valid_list is_valid_model is_valid_fields_Cons is_valid_items_Cons is_valid_items_Nil is_valid_fields_Nil number_size_validator_None Field_required_def)
qed


theorem FlyZoneDict_altitudes_witness:
  "\<not> is_valid (construct (\<lambda>t v. None) FlyZoneDict
      [(''altitudeMin'', VInt (- 1)), (''altitudeMax'', VInt 100),
       (''boundaryPoints'', VList [])]) \<and>
   is_valid (construct (\<lambda>t v. None) FlyZoneDict
      [(''altitudeMin'', VInt 750), (''altitudeMax'', VInt 100),
       (''boundaryPoints'', VList [])])"
  using FlyZoneDict_altitudes
    [of "[(''altitudeMin'', VInt (- 1)), (''altitudeMax'', VInt 100),
          (''boundaryPoints'', VList [])]" "- 1" 100 "VList []" "\<lambda>t v. None"]
    FlyZoneDict_altitudes
    [of "[(''altitudeMin'', VInt 750), (''altitudeMax'', VInt 100),
          (''boundaryPoints'', VList [])]" 750 100 "VList []" "\<lambda>t v. None"]
  by (simp add: is_valid_list is_valid_items_Nil)

section \<open>Altitude\<close>

text \<open>
  C10. The altitude of a \<open>LatLonAltDict\<close> has no bound: constructed with float latitude
  and longitude and any int altitude, at any place in a larger model, it is accepted
  exactly when latitude and longitude are in range. The same holds for a
  \<open>TelemetryDict\<close>, whose only further condition is 0 \<le> heading < 360, and the waypoints
  of a \<open>MissionDict\<close> are a list of \<open>LatLonAltDict\<close>. The float altitude of a \<open>QuickDict\<close>,
  in contrast, is accepted only when it is at least 0.
\<close>

theorem altitude_unconstrained:
  assumes "map_of kw ''latitude'' = Some (VFloat lat)"
      and "map_of kw ''longitude'' = Some (VFloat lon)"
      and "map_of kw ''altitude'' = Some (VInt alt)"
  shows "(is_valid (validate conv loc (model_t LatLonAltDict) (VDict kw)) \<longleftrightarrow>
            (\<exists>x. lat = Finite x \<and> - 180 < x \<and> x \<le> 180) \<and>
            (\<exists>y. lon = Finite y \<and> - 180 < y \<and> y \<le> 180)) \<and>
         (map_of kw ''heading'' = Some (VInt h) \<longrightarrow>
            (is_valid (validate conv loc (model_t TelemetryDict) (VDict kw)) \<longleftrightarrow>
               (\<exists>x. lat = Finite x \<and> - 180 < x \<and> x \<le> 180) \<and>
               (\<exists>y. lon = Finite y \<and> - 180 < y \<and> y \<le> 180) \<and> 0 \<le> h \<and> h < 360)) \<and>
         map_of MissionDict ''waypoints'' = Some (list_t (model_t LatLonAltDict)) \<and>
         (map_of qkw ''altitude'' = Some (VFloat a) \<longrightarrow>
            (field_errors ''altitude'' (errors_of (construct conv QuickDict qkw)) = [] \<longleftrightarrow>
               a = PosInf \<or> (\<exists>x. a = Finite x \<and> 0 \<le> x)))"
proof -
  have 1: "is_valid (validate conv loc (model_t LatLonAltDict) (VDict kw)) \<longleftrightarrow>
      (float_gt lat (- 180) \<and> float_le lat 180) \<and> (float_gt lon (- 180) \<and> float_le lon 180)"
    unfolding LatLonAltDict_def LatLonDict_def append.simps is_valid_model is_valid_fields_Cons
    by (simp add: assms is_valid_float is_valid_int is_valid_fields_Nil number_size_validator_None
        Field_required_def)
  have 2: "is_valid (validate conv loc (model_t TelemetryDict) (VDict kw)) \<longleftrightarrow>
      (float_gt lat (- 180) \<and> float_le lat 180) \<and> (float_gt lon (- 180) \<and> float_le lon 180) \<and>
      0 \<le> h \<and> h < 360" if "map_of kw ''heading'' = Some (VInt h)"
    unfolding TelemetryDict_def LatLonAltDict_def LatLonDict_def append.simps is_valid_model
      is_valid_fields_Cons
    by (simp add: assms that is_valid_float is_valid_int is_valid_fields_Nil
        number_size_validator_None Field_required_def)
  have 3: "map_of MissionDict ''waypoints'' = Some (list_t (model_t LatLonAltDict))"
    by (simp add: MissionDict_def)
  have d: "distinct (map fst QuickDict)"
    by (simp add: QuickDict_def)
  have 4: "field_errors ''altitude'' (errors_of (construct conv QuickDict qkw)) = [] \<longleftrightarrow>
      float_ge a 0" if "map_of qkw ''altitude'' = Some (VFloat a)"
    by (subst field_errors_construct [OF d, where t = "float_t (Field_required\<lparr>ge := Some 0\<rparr>)"])
       (simp_all add: QuickDict_def field_result_errors_def that errors_of_float
         number_size_validator_None Field_required_def)
  from 1 2 3 4 show ?thesis
    by (simp only: float_in_oc float_nonneg) blast
qed


theorem altitude_unconstrained_witness:
  "is_valid (validate (\<lambda>t v. None) [] (model_t LatLonAltDict)
      (VDict [(''latitude'', VFloat (Finite 38)), (''longitude'', VFloat (Finite (- 77))),
              (''altitude'', VInt (- 50)), (''heading'', VInt 270)])) \<and>
   is_valid (validate (\<lambda>t v. None) [] (model_t TelemetryDict)
      (VDict [(''latitude'', VFloat (Finite 38)), (''longitude'', VFloat (Finite (- 77))),
              (''altitude'', VInt (- 50)), (''heading'', VInt 270)])) \<and>
   field_errors ''altitude'' (errors_of (construct (\<lambda>t v. None) QuickDict
      [(''altitude'', VFloat (Finite (- 50))),
       (''orientation'', VDict [(''yaw'', VInt 270), (''roll'', VInt 24), (''pitch'', VInt 3)]),
       (''ground_speed'', VFloat (Finite 56)), (''air_speed'', VFloat (Finite 54)),
       (''dist_to_wp'', VFloat (Finite 152)), (''voltage'', VFloat (Finite 14)),
       (''throttle'', VInt 65), (''lat'', VFloat (Finite 38)),
       (''lon'', VFloat (Finite (- 77)))])) \<noteq> []"
  using altitude_unconstrained
    [of "[(''latitude'', VFloat (Finite 38)), (''longitude'', VFloat (Finite (- 77))),
          (''altitude'', VInt (- 50)), (''heading'', VInt 270)]"
        "Finite 38" "Finite (- 77)" "- 50" "\<lambda>t v. None" "[]" 270
        "[(''altitude'', VFloat (Finite (- 50))),
       (''orientation'', VDict [(''yaw'', VInt 270), (''roll'', VInt 24), (''pitch'', VInt 3)]),
       (''ground_speed'', VFloat (Finite 56)), (''air_speed'', VFloat (Finite 54)),
       (''dist_to_wp'', VFloat (Finite 152)), (''voltage'', VFloat (Finite 14)),
       (''throttle'', VInt 65), (''lat'', VFloat (Finite 38)),
       (''lon'', VFloat (Finite (- 77)))]"
        "Finite (- 50)"]
  by simp

end
